theory Spec2Isabelle
  imports Main
begin

section \<open>Export subsystem of the eDiscovery backend (routers/export.py)\<close>

text \<open>
  The development embeds \<^verbatim>\<open>src/backend/fastapi/routers/export.py\<close>: the request and
  job models, the in-memory job table \<^verbatim>\<open>export_jobs\<close>, the submit handler
  \<^verbatim>\<open>export_documents\<close>, the background task \<^verbatim>\<open>process_export\<close>, and the
  handlers \<^verbatim>\<open>get_export_job\<close> and \<^verbatim>\<open>download_export\<close>.

  Python integers are \<open>int\<close>; a \<^verbatim>\<open>datetime\<close> is an \<open>int\<close> (microseconds since the
  epoch); \<^verbatim>\<open>Optional[T]\<close> is \<open>T option\<close>; a raised exception is the left summand of a
  sum type.
\<close>

subsection \<open>Values\<close>

text \<open>
  A value of a JSON column (\<^verbatim>\<open>d.metadata\<close>, \<^verbatim>\<open>d.tags\<close>) as the database driver hands it
  to Python, with SQL NULL as \<open>JNull\<close>. \<open>truthy\<close> is Python's truth test on such a
  value, which the serialisers use (\<^verbatim>\<open>json.dumps(row[9]) if row[9] else ""\<close>).
\<close>

datatype json =
    JNull
  | JBool bool
  | JInt int
  | JStr string
  | JList "json list"
  | JObj "(string \<times> json) list"

fun truthy :: "json \<Rightarrow> bool" where
  "truthy JNull = False"
| "truthy (JBool b) = b"
| "truthy (JInt i) = (i \<noteq> 0)"
| "truthy (JStr s) = (s \<noteq> [])"
| "truthy (JList xs) = (xs \<noteq> [])"
| "truthy (JObj kvs) = (kvs \<noteq> [])"

text \<open>
  A Python value handed to a serialiser. \<open>PDumps v\<close> is the string
  \<^verbatim>\<open>json.dumps(v)\<close>; \<open>PIso t\<close> is the string \<^verbatim>\<open>t.isoformat()\<close>; \<open>PJson v\<close> is the
  value \<open>v\<close> itself.
\<close>

datatype pyval =
    PNone
  | PInt int
  | PStr string
  | PDate int
  | PIso int
  | PJson json
  | PDumps json

subsection \<open>The request and the job record\<close>

text \<open>\<^verbatim>\<open>class ExportRequest(BaseModel)\<close>, lines 20-27.\<close>

record ExportRequest =
  case_id :: "int option"
  document_ids :: "int list option"
  format :: string
  include_metadata :: bool
  date_from :: "int option"
  date_to :: "int option"

text \<open>
  \<^verbatim>\<open>class ExportJob(BaseModel)\<close>, lines 29-38. The field \<^verbatim>\<open>format\<close> is \<open>job_format\<close>
  here, since the request has a field of that name; \<^verbatim>\<open>status\<close> is a \<^verbatim>\<open>str\<close> in the
  source and stays a string.
\<close>

record ExportJob =
  job_id :: string
  status :: string
  job_format :: string
  created_at :: int
  completed_at :: "int option"
  download_url :: "string option"
  total_records :: int
  error_message :: "string option"

subsection \<open>The relational store\<close>

text \<open>
  The tables the query of \<^verbatim>\<open>process_export\<close> reads. Their schema is not part of the
  sources; the columns are the ones the \<^verbatim>\<open>SELECT\<close> names. A column the code guards
  against NULL is an option. \<^verbatim>\<open>cases\<close> is keyed by its primary key \<^verbatim>\<open>id\<close>.
  \<open>documents\<close> lists the rows of the table in the order in which the database engine
  hands them to its sort for this query; that order is the engine's choice.
\<close>

record document =
  d_id :: int
  d_filename :: string
  d_case_id :: "int option"
  d_file_type :: string
  d_file_size :: int
  d_upload_date :: "int option"
  d_uploaded_by :: string
  d_metadata :: json
  d_tags :: json
  d_hash :: "string option"

record case_rec =
  c_name :: string
  c_number :: string

record database =
  documents :: "document list"
  cases :: "int \<rightharpoonup> case_rec"

text \<open>A row of the result: the twelve selected columns, \<^verbatim>\<open>row[0]\<close> to \<^verbatim>\<open>row[11]\<close>.\<close>

record row =
  r_id :: int
  r_filename :: string
  r_case_id :: "int option"
  r_case_name :: "string option"
  r_case_number :: "string option"
  r_file_type :: string
  r_file_size :: int
  r_upload_date :: "int option"
  r_uploaded_by :: string
  r_metadata :: json
  r_tags :: json
  r_hash :: "string option"

subsection \<open>Building the query (lines 93-135)\<close>

text \<open>
  The conditions appended to \<^verbatim>\<open>sql_parts\<close>, with the parameters bound in \<^verbatim>\<open>params\<close>
  already substituted.
\<close>

datatype cond =
    CaseEq int
  | IdIn "int list"
  | DateGe int
  | DateLe int

text \<open>
  Each \<^verbatim>\<open>if export_request.x:\<close> is Python's truth test: \<^verbatim>\<open>None\<close>, the integer 0 and the
  empty list are false; every \<^verbatim>\<open>datetime\<close> is true.
\<close>

definition build_query :: "ExportRequest \<Rightarrow> cond list" where
  "build_query rq =
     (case case_id rq of
        None \<Rightarrow> []
      | Some c \<Rightarrow> if c \<noteq> 0 then [CaseEq c] else [])
     @ (case document_ids rq of
          None \<Rightarrow> []
        | Some ids \<Rightarrow> if ids \<noteq> [] then [IdIn ids] else [])
     @ (case date_from rq of None \<Rightarrow> [] | Some t \<Rightarrow> [DateGe t])
     @ (case date_to rq of None \<Rightarrow> [] | Some t \<Rightarrow> [DateLe t])"

subsection \<open>Running the query (lines 137-140)\<close>

text \<open>
  SQL's comparison with NULL is not true, so a document without case or upload date
  fails the condition on that column.
\<close>

fun holds :: "cond \<Rightarrow> document \<Rightarrow> bool" where
  "holds (CaseEq c) d = (d_case_id d = Some c)"
| "holds (IdIn ids) d = (d_id d \<in> set ids)"
| "holds (DateGe t) d = (case d_upload_date d of None \<Rightarrow> False | Some u \<Rightarrow> t \<le> u)"
| "holds (DateLe t) d = (case d_upload_date d of None \<Rightarrow> False | Some u \<Rightarrow> u \<le> t)"

text \<open>\<^verbatim>\<open>WHERE 1=1 AND c1 AND c2 ...\<close>\<close>

fun where_clause :: "cond list \<Rightarrow> document \<Rightarrow> bool" where
  "where_clause [] d = True"
| "where_clause (c # cs) d = (holds c d \<and> where_clause cs d)"

text \<open>\<^verbatim>\<open>FROM documents d LEFT JOIN cases c ON d.case_id = c.id\<close>: one row per document.\<close>

definition join_case :: "(int \<rightharpoonup> case_rec) \<Rightarrow> document \<Rightarrow> row" where
  "join_case cs d =
     (let c = (case d_case_id d of None \<Rightarrow> None | Some k \<Rightarrow> cs k) in
      \<lparr> r_id = d_id d,
        r_filename = d_filename d,
        r_case_id = d_case_id d,
        r_case_name = map_option c_name c,
        r_case_number = map_option c_number c,
        r_file_type = d_file_type d,
        r_file_size = d_file_size d,
        r_upload_date = d_upload_date d,
        r_uploaded_by = d_uploaded_by d,
        r_metadata = d_metadata d,
        r_tags = d_tags d,
        r_hash = d_hash d \<rparr>)"

text \<open>
  \<^verbatim>\<open>ORDER BY d.upload_date DESC\<close> on the configured PostgreSQL store: NULL sorts as the
  largest value, so it comes first when descending. \<open>date_ge a b\<close> says that \<open>a\<close> may
  stand before \<open>b\<close>. SQL leaves the order of rows with equal dates open: it is the
  engine's choice. The insertion sort below keeps such rows in the order of
  \<open>documents\<close>, so every order the engine may return is the result for some order of
  that list. The properties below that speak of the order of rows speak of
  \<open>sorted_desc\<close> only, which holds whatever the order of equal dates.
\<close>

fun date_ge :: "int option \<Rightarrow> int option \<Rightarrow> bool" where
  "date_ge None b = True"
| "date_ge (Some x) None = False"
| "date_ge (Some x) (Some y) = (y \<le> x)"

fun insert_desc :: "row \<Rightarrow> row list \<Rightarrow> row list" where
  "insert_desc r [] = [r]"
| "insert_desc r (x # xs) =
     (if date_ge (r_upload_date r) (r_upload_date x) then r # x # xs
      else x # insert_desc r xs)"

fun order_by_upload_date_desc :: "row list \<Rightarrow> row list" where
  "order_by_upload_date_desc [] = []"
| "order_by_upload_date_desc (r # rs) = insert_desc r (order_by_upload_date_desc rs)"

definition fetchall :: "database \<Rightarrow> cond list \<Rightarrow> row list" where
  "fetchall db cs =
     order_by_upload_date_desc
       (map (join_case (cases db)) (filter (where_clause cs) (documents db)))"

text \<open>The rows \<^verbatim>\<open>process_export\<close> gets for a request when the query does not raise.\<close>

definition query_rows :: "database \<Rightarrow> ExportRequest \<Rightarrow> row list" where
  "query_rows db rq = fetchall db (build_query rq)"

text \<open>What "ordered by upload date descending" means for a list of rows.\<close>

definition sorted_desc :: "row list \<Rightarrow> bool" where
  "sorted_desc rs = sorted_wrt (\<lambda>a b. date_ge (r_upload_date a) (r_upload_date b)) rs"

subsection \<open>Exceptions, the file system and the process state\<close>

text \<open>
  \<open>Exception m\<close> stands for any instance \<^verbatim>\<open>e\<close> of a subclass of \<^verbatim>\<open>Exception\<close> with
  \<^verbatim>\<open>str(e) = m\<close> other than a \<^verbatim>\<open>KeyError\<close>; \<open>KeyError k\<close> is what \<^verbatim>\<open>export_jobs[k]\<close>
  raises for an absent key, and Python prints it as the quoted key.
\<close>

datatype exn = KeyError string | Exception string

fun str_of :: "exn \<Rightarrow> string" where
  "str_of (KeyError k) = CHR 0x27 # k @ [CHR 0x27]"
| "str_of (Exception m) = m"

text \<open>\<^verbatim>\<open>HTTPException(status_code, detail)\<close>\<close>

datatype http_error = HTTPException nat string

text \<open>
  What a file under the export directory holds. A CSV file is the lines written so far,
  the header first. \<open>JsonFile d n docs\<close> is the object with \<^verbatim>\<open>export_date\<close>,
  \<^verbatim>\<open>total_records\<close> and \<^verbatim>\<open>documents\<close>. \<open>Truncated\<close> is a file whose single write call
  (\<^verbatim>\<open>json.dump\<close>, \<^verbatim>\<open>to_excel\<close>) was cut short by an error.
\<close>

datatype file_content =
    CsvFile "pyval list list"
  | JsonFile int int "(string \<times> pyval) list list"
  | XlsxFile "(string \<times> pyval) list list"
  | Truncated

text \<open>
  The state the handlers share: the module-level dict \<^verbatim>\<open>export_jobs\<close> (line 41) and the
  directory \<^verbatim>\<open>settings.export_dir\<close> with its files, keyed by file name.
\<close>

record world =
  export_jobs :: "string \<rightharpoonup> ExportJob"
  export_dir_exists :: bool
  files :: "string \<rightharpoonup> file_content"

text \<open>
  What one run of \<^verbatim>\<open>process_export\<close> meets outside the process: the tables; whether
  \<^verbatim>\<open>db.execute\<close> or \<^verbatim>\<open>mkdir\<close> raise, and with which message; whether a file operation
  raises (\<open>io_fault = Some (n, m)\<close>: the operation with index \<open>n\<close> raises with message
  \<open>m\<close>, where index 0 is opening the file and the writes follow from 1); whether
  \<^verbatim>\<open>pandas\<close> and \<^verbatim>\<open>openpyxl\<close> can be imported; and the two readings of the clock.
\<close>

record env =
  env_db :: database
  db_fault :: "string option"
  mkdir_fault :: "string option"
  io_fault :: "(nat \<times> string) option"
  xlsx_available :: bool
  t_export :: int
  t_done :: int

definition fault_at :: "(nat \<times> string) option \<Rightarrow> nat \<Rightarrow> string option" where
  "fault_at f k = (case f of None \<Rightarrow> None | Some (n, m) \<Rightarrow> if n = k then Some m else None)"

subsection \<open>Serialisers (lines 146-233)\<close>

text \<open>The first nine columns, \<^verbatim>\<open>row[:9]\<close>, as Python values.\<close>

definition opt_int :: "int option \<Rightarrow> pyval" where
  "opt_int x = (case x of None \<Rightarrow> PNone | Some n \<Rightarrow> PInt n)"

definition opt_str :: "string option \<Rightarrow> pyval" where
  "opt_str x = (case x of None \<Rightarrow> PNone | Some s \<Rightarrow> PStr s)"

definition opt_date :: "int option \<Rightarrow> pyval" where
  "opt_date x = (case x of None \<Rightarrow> PNone | Some t \<Rightarrow> PDate t)"

definition core_values :: "row \<Rightarrow> pyval list" where
  "core_values r =
     [PInt (r_id r), PStr (r_filename r), opt_int (r_case_id r), opt_str (r_case_name r),
      opt_str (r_case_number r), PStr (r_file_type r), PInt (r_file_size r),
      opt_date (r_upload_date r), PStr (r_uploaded_by r)]"

text \<open>\<^verbatim>\<open>json.dumps(v) if v else ""\<close> and \<^verbatim>\<open>row[11] or ""\<close>\<close>

definition dumps_or_empty :: "json \<Rightarrow> pyval" where
  "dumps_or_empty v = (if truthy v then PDumps v else PStr [])"

definition hash_or_empty :: "string option \<Rightarrow> pyval" where
  "hash_or_empty h = (case h of None \<Rightarrow> PStr [] | Some s \<Rightarrow> if s \<noteq> [] then PStr s else PStr [])"

definition metadata_values :: "row \<Rightarrow> pyval list" where
  "metadata_values r =
     [dumps_or_empty (r_metadata r), dumps_or_empty (r_tags r), hash_or_empty (r_hash r)]"

definition core_headers :: "string list" where
  "core_headers =
     [''ID'', ''Filename'', ''Case ID'', ''Case Name'', ''Case Number'',
      ''File Type'', ''File Size (bytes)'', ''Upload Date'', ''Uploaded By'']"

definition csv_headers :: "bool \<Rightarrow> string list" where
  "csv_headers incl = core_headers @ (if incl then [''Metadata'', ''Tags'', ''Hash''] else [])"

definition csv_data :: "bool \<Rightarrow> row \<Rightarrow> pyval list" where
  "csv_data incl r = core_values r @ (if incl then metadata_values r else [])"

text \<open>
  The calls of \<^verbatim>\<open>writer.writerow\<close> in order: \<open>k\<close> is the index of the next file
  operation, \<open>acc\<close> the lines already in the file. An operation that raises leaves the
  lines before it in the file.
\<close>

fun writerows ::
  "(nat \<times> string) option \<Rightarrow> nat \<Rightarrow> pyval list list \<Rightarrow> pyval list list
     \<Rightarrow> pyval list list \<times> exn option" where
  "writerows f k acc [] = (acc, None)"
| "writerows f k acc (l # ls) =
     (case fault_at f k of
        Some m \<Rightarrow> (acc, Some (Exception m))
      | None \<Rightarrow> writerows f (Suc k) (acc @ [l]) ls)"

text \<open>
  Lines 151-172. \<^verbatim>\<open>open(filepath, 'w')\<close> creates or empties the file; the header and one
  line per row follow. The \<^verbatim>\<open>with\<close> block closes the file also when a write raises.
\<close>

definition write_csv ::
  "(nat \<times> string) option \<Rightarrow> string \<Rightarrow> bool \<Rightarrow> row list \<Rightarrow> (string \<rightharpoonup> file_content)
     \<Rightarrow> (string \<rightharpoonup> file_content) \<times> exn option" where
  "write_csv f fname incl rows fs =
     (case fault_at f 0 of
        Some m \<Rightarrow> (fs, Some (Exception m))
      | None \<Rightarrow>
          (case writerows f 1 [] (map PStr (csv_headers incl) # map (csv_data incl) rows) of
             (ls, r) \<Rightarrow> (fs(fname \<mapsto> CsvFile ls), r)))"

text \<open>Lines 177-194: the object built for one row.\<close>

definition json_doc :: "bool \<Rightarrow> row \<Rightarrow> (string \<times> pyval) list" where
  "json_doc incl r =
     [(''id'', PInt (r_id r)),
      (''filename'', PStr (r_filename r)),
      (''case_id'', opt_int (r_case_id r)),
      (''case_name'', opt_str (r_case_name r)),
      (''case_number'', opt_str (r_case_number r)),
      (''file_type'', PStr (r_file_type r)),
      (''file_size'', PInt (r_file_size r)),
      (''upload_date'', (case r_upload_date r of None \<Rightarrow> PNone | Some t \<Rightarrow> PIso t)),
      (''uploaded_by'', PStr (r_uploaded_by r))]
     @ (if incl then
          [(''metadata'', PJson (r_metadata r)),
           (''tags'', PJson (r_tags r)),
           (''hash'', opt_str (r_hash r))]
        else [])"

text \<open>Lines 175-201: the documents are built first, then the file is opened and written.\<close>

definition write_json ::
  "(nat \<times> string) option \<Rightarrow> int \<Rightarrow> string \<Rightarrow> bool \<Rightarrow> row list \<Rightarrow> (string \<rightharpoonup> file_content)
     \<Rightarrow> (string \<rightharpoonup> file_content) \<times> exn option" where
  "write_json f now fname incl rows fs =
     (let docs = map (json_doc incl) rows in
      case fault_at f 0 of
        Some m \<Rightarrow> (fs, Some (Exception m))
      | None \<Rightarrow>
          (case fault_at f 1 of
             Some m \<Rightarrow> (fs(fname \<mapsto> Truncated), Some (Exception m))
           | None \<Rightarrow> (fs(fname \<mapsto> JsonFile now (int (length docs)) docs), None)))"

text \<open>Lines 210-227: the record built for one row of the spreadsheet.\<close>

definition xlsx_record :: "bool \<Rightarrow> row \<Rightarrow> (string \<times> pyval) list" where
  "xlsx_record incl r =
     zip core_headers (core_values r)
     @ (if incl then zip [''Metadata'', ''Tags'', ''Hash''] (metadata_values r) else [])"

text \<open>
  Lines 204-233. A failed import, of \<^verbatim>\<open>pandas\<close> or of \<^verbatim>\<open>openpyxl\<close> inside
  \<^verbatim>\<open>to_excel\<close>, is an \<^verbatim>\<open>ImportError\<close> and is raised again as a plain \<^verbatim>\<open>Exception\<close> with a
  fixed message; nothing has touched the file by then.
\<close>

definition write_xlsx ::
  "bool \<Rightarrow> (nat \<times> string) option \<Rightarrow> string \<Rightarrow> bool \<Rightarrow> row list \<Rightarrow> (string \<rightharpoonup> file_content)
     \<Rightarrow> (string \<rightharpoonup> file_content) \<times> exn option" where
  "write_xlsx avail f fname incl rows fs =
     (if \<not> avail then (fs, Some (Exception ''pandas and openpyxl required for XLSX export''))
      else
        (let data = map (xlsx_record incl) rows in
         case fault_at f 0 of
           Some m \<Rightarrow> (fs, Some (Exception m))
         | None \<Rightarrow>
             (case fault_at f 1 of
                Some m \<Rightarrow> (fs(fname \<mapsto> Truncated), Some (Exception m))
              | None \<Rightarrow> (fs(fname \<mapsto> XlsxFile data), None))))"

subsection \<open>The background task \<^verbatim>\<open>process_export\<close> (lines 87-243)\<close>

text \<open>\<^verbatim>\<open>export_jobs[job_id].field = value\<close>: a \<^verbatim>\<open>KeyError\<close> when the id is absent.\<close>

definition update_job :: "string \<Rightarrow> (ExportJob \<Rightarrow> ExportJob) \<Rightarrow> world \<Rightarrow> exn + world" where
  "update_job jid f w =
     (case export_jobs w jid of
        None \<Rightarrow> Inl (KeyError jid)
      | Some j \<Rightarrow> Inr (w\<lparr>export_jobs := (export_jobs w)(jid \<mapsto> f j)\<rparr>))"

text \<open>Line 91.\<close>

definition mark_processing :: "string \<Rightarrow> world \<Rightarrow> exn + world" where
  "mark_processing jid w = update_job jid (\<lambda>j. j\<lparr>status := ''processing''\<rparr>) w"

text \<open>
  Lines 93-233: the query, the directory and the file. The result is the state reached
  and either the exception raised or the rows fetched.
\<close>

definition file_name :: "string \<Rightarrow> string \<Rightarrow> string" where
  "file_name jid fmt = jid @ ''.'' @ fmt"

definition run_export :: "env \<Rightarrow> string \<Rightarrow> ExportRequest \<Rightarrow> world \<Rightarrow> world \<times> (exn + row list)" where
  "run_export e jid rq w =
     (case db_fault e of
        Some m \<Rightarrow> (w, Inl (Exception m))
      | None \<Rightarrow>
          (let rows = query_rows (env_db e) rq in
           case mkdir_fault e of
             Some m \<Rightarrow> (w, Inl (Exception m))
           | None \<Rightarrow>
               (let w1 = w\<lparr>export_dir_exists := True\<rparr>;
                    fname = file_name jid (format rq);
                    written =
                      (if format rq = ''csv'' then
                         write_csv (io_fault e) fname (include_metadata rq) rows (files w1)
                       else if format rq = ''json'' then
                         write_json (io_fault e) (t_export e) fname (include_metadata rq) rows
                           (files w1)
                       else if format rq = ''xlsx'' then
                         write_xlsx (xlsx_available e) (io_fault e) fname (include_metadata rq)
                           rows (files w1)
                       else (files w1, None))
                in case written of
                     (fs, Some x) \<Rightarrow> (w1\<lparr>files := fs\<rparr>, Inl x)
                   | (fs, None) \<Rightarrow> (w1\<lparr>files := fs\<rparr>, Inr rows))))"

text \<open>Lines 235-239.\<close>

definition mark_completed :: "env \<Rightarrow> string \<Rightarrow> row list \<Rightarrow> world \<Rightarrow> exn + world" where
  "mark_completed e jid rows w =
     update_job jid
       (\<lambda>j. j\<lparr>status := ''completed'',
               completed_at := Some (t_done e),
               download_url := Some (''/api/export/download/'' @ jid),
               total_records := int (length rows)\<rparr>) w"

text \<open>Lines 241-243, the handler of \<^verbatim>\<open>except Exception as e\<close>.\<close>

definition on_exception :: "exn \<Rightarrow> string \<Rightarrow> world \<Rightarrow> exn + world" where
  "on_exception x jid w =
     update_job jid (\<lambda>j. j\<lparr>status := ''failed'', error_message := Some (str_of x)\<rparr>) w"

text \<open>
  The task as the list of states after each change of the job table: the state after
  line 91, then the state after lines 236-239 or after the handler. The task is an
  \<^verbatim>\<open>async def\<close> without any \<^verbatim>\<open>await\<close>, so each block of assignments is one step for every
  other handler. \<open>Inl\<close> is an exception that leaves the task.
\<close>

definition process_export_trace ::
  "env \<Rightarrow> string \<Rightarrow> ExportRequest \<Rightarrow> world \<Rightarrow> exn + world list" where
  "process_export_trace e jid rq w =
     (case mark_processing jid w of
        Inl x \<Rightarrow> map_sum id (\<lambda>w'. [w']) (on_exception x jid w)
      | Inr w1 \<Rightarrow>
          (case run_export e jid rq w1 of
             (w2, Inl x) \<Rightarrow> map_sum id (\<lambda>w'. [w1, w']) (on_exception x jid w2)
           | (w2, Inr rows) \<Rightarrow>
               (case mark_completed e jid rows w2 of
                  Inl x \<Rightarrow> map_sum id (\<lambda>w'. [w1, w']) (on_exception x jid w2)
                | Inr w3 \<Rightarrow> Inr [w1, w3])))"

definition process_export :: "env \<Rightarrow> string \<Rightarrow> ExportRequest \<Rightarrow> world \<Rightarrow> exn + world" where
  "process_export e jid rq w = map_sum id last (process_export_trace e jid rq w)"

subsection \<open>The handlers\<close>

text \<open>
  \<^verbatim>\<open>export_documents\<close>, lines 43-85. \<open>stamp\<close> is
  \<^verbatim>\<open>datetime.utcnow().strftime('%Y%m%d_%H%M%S_%f')\<close> and \<open>now\<close> the second reading of the
  clock. Nothing inside the \<^verbatim>\<open>try\<close> raises, so the handler of line 85 (status 500) is
  never entered. The result is the job returned, the task handed to
  \<^verbatim>\<open>background_tasks.add_task\<close>, and the new state.
\<close>

definition export_documents ::
  "string \<Rightarrow> int \<Rightarrow> ExportRequest \<Rightarrow> world
     \<Rightarrow> http_error + (ExportJob \<times> (string \<times> ExportRequest) \<times> world)" where
  "export_documents stamp now rq w =
     (let jid = ''export_'' @ stamp;
          job = \<lparr> job_id = jid,
                  status = ''pending'',
                  job_format = format rq,
                  created_at = now,
                  completed_at = None,
                  download_url = None,
                  total_records = 0,
                  error_message = None \<rparr>
      in Inr (job, (jid, rq), w\<lparr>export_jobs := (export_jobs w)(jid \<mapsto> job)\<rparr>))"

text \<open>\<^verbatim>\<open>get_export_job\<close>, lines 245-251.\<close>

definition get_export_job :: "world \<Rightarrow> string \<Rightarrow> http_error + ExportJob" where
  "get_export_job w jid =
     (case export_jobs w jid of
        None \<Rightarrow> Inl (HTTPException 404 ''Export job not found'')
      | Some j \<Rightarrow> Inr j)"




subsection \<open>The handlers over time\<close>

text \<open>
  What happens to the process: a request to one of the handlers, or the run of a
  background task that a submission has scheduled (line 75 schedules one task for each
  submission, with the job id and the request of that submission). \<open>event_states\<close> is
  the list of states an event passes through; the two reading handlers change nothing,
  and a task that ends in an exception of its own has changed nothing either.
  \<open>run_events\<close> runs events one after the other and collects the states.
\<close>

datatype event =
    Submit string int ExportRequest
  | Task env string ExportRequest
  | GetJob string
  | Download string string

fun event_states :: "event \<Rightarrow> world \<Rightarrow> world list" where
  "event_states (Submit stamp now rq) w =
     (case export_documents stamp now rq w of Inl h \<Rightarrow> [] | Inr (job, t, w') \<Rightarrow> [w'])"
| "event_states (Task e jid rq) w =
     (case process_export_trace e jid rq w of Inl x \<Rightarrow> [] | Inr ws \<Rightarrow> ws)"
| "event_states (GetJob jid) w = []"
| "event_states (Download today jid) w = []"

fun run_events :: "event list \<Rightarrow> world \<Rightarrow> world list" where
  "run_events [] w = []"
| "run_events (ev # evs) w =
     event_states ev w @ run_events evs (last (w # event_states ev w))"

text \<open>
  An event concerns a job id when it is a submission that is given this id, or a task
  for this id.
\<close>

fun touches :: "string \<Rightarrow> event \<Rightarrow> bool" where
  "touches jid (Submit stamp now rq) = (''export_'' @ stamp = jid)"
| "touches jid (Task e jid2 rq) = (jid2 = jid)"
| "touches jid (GetJob jid2) = False"
| "touches jid (Download today jid2) = False"

subsection \<open>Reading the results\<close>

text \<open>The record of a job, and a file of the export directory, after a run of the task.\<close>

definition job_of :: "exn + world \<Rightarrow> string \<Rightarrow> ExportJob option" where
  "job_of r jid = (case r of Inl x \<Rightarrow> None | Inr w \<Rightarrow> export_jobs w jid)"

definition file_of :: "exn + world \<Rightarrow> string \<Rightarrow> file_content option" where
  "file_of r p = (case r of Inl x \<Rightarrow> None | Inr w \<Rightarrow> files w p)"

text \<open>The status a job id has in each state of a list of states.\<close>

definition status_sequence :: "string \<Rightarrow> world list \<Rightarrow> string option list" where
  "status_sequence jid ws = map (\<lambda>w. map_option status (export_jobs w jid)) ws"

text \<open>
  The relation between the status and the other fields of a job record that the data
  model of the specification words: a download URL exactly on \<^verbatim>\<open>completed\<close>, an error
  message exactly on \<^verbatim>\<open>failed\<close>, no records counted before \<^verbatim>\<open>completed\<close>.
\<close>

definition job_inv :: "ExportJob \<Rightarrow> bool" where
  "job_inv j =
     (((download_url j \<noteq> None) = (status j = ''completed''))
      \<and> ((error_message j \<noteq> None) = (status j = ''failed''))
      \<and> (status j = ''completed'' \<or> total_records j = 0))"

definition inv_at :: "string \<Rightarrow> world \<Rightarrow> bool" where
  "inv_at jid w = (case export_jobs w jid of None \<Rightarrow> False | Some j \<Rightarrow> job_inv j)"

text \<open>
  The record the task leaves for a job, from the record it found and the outcome of
  lines 93-233: the handler's two assignments, or the four of lines 236-239.
\<close>

definition final_job :: "env \<Rightarrow> string \<Rightarrow> ExportJob \<Rightarrow> exn + row list \<Rightarrow> ExportJob" where
  "final_job e jid j r =
     (case r of
        Inl x \<Rightarrow> j\<lparr>status := ''failed'', error_message := Some (str_of x)\<rparr>
      | Inr rows \<Rightarrow>
          j\<lparr>status := ''completed'', completed_at := Some (t_done e),
            download_url := Some (''/api/export/download/'' @ jid),
            total_records := int (length rows)\<rparr>)"

text \<open>
  Reading an export back: the document identifier of a CSV line (its first cell) and of
  a JSON document (its \<^verbatim>\<open>id\<close> member), the identifiers of a whole file in file order
  (the CSV header is skipped), and the \<^verbatim>\<open>total_records\<close> member of a JSON file.
\<close>

fun cell_id :: "pyval list \<Rightarrow> int option" where
  "cell_id (PInt n # cs) = Some n"
| "cell_id cs = None"

definition doc_id :: "(string \<times> pyval) list \<Rightarrow> int option" where
  "doc_id kv = (case map_of kv ''id'' of Some (PInt n) \<Rightarrow> Some n | _ \<Rightarrow> None)"

fun file_ids :: "file_content \<Rightarrow> int option list" where
  "file_ids (CsvFile ls) = map cell_id (tl ls)"
| "file_ids (JsonFile d n docs) = map doc_id docs"
| "file_ids (XlsxFile recs) = []"
| "file_ids Truncated = []"

fun file_total_records :: "file_content \<Rightarrow> int option" where
  "file_total_records (JsonFile d n docs) = Some n"
| "file_total_records c = None"

text \<open>
  The filter in the words of the specification (section 4.2, step 2): every criterion
  that is given, that is, not \<^verbatim>\<open>None\<close>, is applied, and all of them conjunctively. It
  is compared with \<open>where_clause (build_query rq)\<close>, which is what the code runs.
\<close>

definition spec_matches :: "ExportRequest \<Rightarrow> document \<Rightarrow> bool" where
  "spec_matches rq d =
     ((case case_id rq of None \<Rightarrow> True | Some c \<Rightarrow> d_case_id d = Some c)
      \<and> (case document_ids rq of None \<Rightarrow> True | Some ids \<Rightarrow> d_id d \<in> set ids)
      \<and> (case date_from rq of
            None \<Rightarrow> True
          | Some t \<Rightarrow> (case d_upload_date d of None \<Rightarrow> False | Some u \<Rightarrow> t \<le> u))
      \<and> (case date_to rq of
            None \<Rightarrow> True
          | Some t \<Rightarrow> (case d_upload_date d of None \<Rightarrow> False | Some u \<Rightarrow> u \<le> t)))"

subsection \<open>Example data\<close>

text \<open>Three documents, two of them of case 7, and a request without any criterion.\<close>

definition doc_a :: document where
  "doc_a = \<lparr> d_id = 3, d_filename = ''a.pdf'', d_case_id = Some 7, d_file_type = ''pdf'',
             d_file_size = 10, d_upload_date = Some 100, d_uploaded_by = ''ann'',
             d_metadata = JObj [(''k'', JInt 1)], d_tags = JList [], d_hash = Some ''h3'' \<rparr>"

definition doc_b :: document where
  "doc_b = \<lparr> d_id = 5, d_filename = ''b.txt'', d_case_id = Some 7, d_file_type = ''txt'',
             d_file_size = 20, d_upload_date = Some 300, d_uploaded_by = ''bob'',
             d_metadata = JNull, d_tags = JList [JStr ''x''], d_hash = None \<rparr>"

definition doc_c :: document where
  "doc_c = \<lparr> d_id = 8, d_filename = ''c.eml'', d_case_id = None, d_file_type = ''eml'',
             d_file_size = 30, d_upload_date = Some 200, d_uploaded_by = ''cy'',
             d_metadata = JNull, d_tags = JNull, d_hash = None \<rparr>"

definition db1 :: database where
  "db1 = \<lparr> documents = [doc_a, doc_b, doc_c],
           cases = [7 \<mapsto> \<lparr> c_name = ''Acme'', c_number = ''A-1'' \<rparr>] \<rparr>"

definition rq_all :: ExportRequest where
  "rq_all = \<lparr> case_id = None, document_ids = None, format = ''csv'', include_metadata = True,
              date_from = None, date_to = None \<rparr>"

text \<open>
  An empty process state; the job id made from one reading of the clock; the record the
  submit handler creates for it; the state that holds just this record; a state in
  which the job is completed and its file is there; the job id of a later reading of the
  clock; an environment without faults.
\<close>

definition w_empty :: world where
  "w_empty = \<lparr> export_jobs = Map.empty, export_dir_exists = False, files = Map.empty \<rparr>"

definition stamp1 :: string where
  "stamp1 = ''20240101_120000_000001''"

definition jid1 :: string where
  "jid1 = ''export_20240101_120000_000001''"

definition job1 :: "string \<Rightarrow> ExportJob" where
  "job1 fmt = \<lparr> job_id = jid1, status = ''pending'', job_format = fmt, created_at = 1000,
                completed_at = None, download_url = None, total_records = 0,
                error_message = None \<rparr>"

definition w_pending :: "string \<Rightarrow> world" where
  "w_pending fmt = w_empty\<lparr>export_jobs := [jid1 \<mapsto> job1 fmt]\<rparr>"


definition stamp2 :: string where
  "stamp2 = ''20240101_120000_000002''"

definition jid2 :: string where
  "jid2 = ''export_20240101_120000_000002''"

definition env_ok :: env where
  "env_ok = \<lparr> env_db = db1, db_fault = None, mkdir_fault = None, io_fault = None,
              xlsx_available = True, t_export = 2000, t_done = 2001 \<rparr>"

section \<open>Properties of the query\<close>

lemma set_insert_desc: "set (insert_desc r xs) = insert r (set xs)"
  by (induction xs) auto

lemma set_order_by: "set (order_by_upload_date_desc rs) = set rs"
  by (induction rs) (auto simp: set_insert_desc)

lemma length_insert_desc: "length (insert_desc r xs) = Suc (length xs)"
  by (induction xs) auto

lemma length_order_by: "length (order_by_upload_date_desc rs) = length rs"
  by (induction rs) (auto simp: length_insert_desc)

lemma date_ge_total: "date_ge a b \<or> date_ge b a"
  by (cases a; cases b) auto

lemma date_ge_trans: "date_ge a b \<Longrightarrow> date_ge b c \<Longrightarrow> date_ge a c"
  by (cases a; cases b; cases c) auto

lemma sorted_insert_desc:
  "sorted_desc xs \<Longrightarrow> sorted_desc (insert_desc r xs)"
proof (induction xs)
  case Nil
  then show ?case by (simp add: sorted_desc_def)
next
  case (Cons x xs)
  show ?case
  proof (cases "date_ge (r_upload_date r) (r_upload_date x)")
    case True
    have "\<forall>y\<in>set xs. date_ge (r_upload_date r) (r_upload_date y)"
      using Cons.prems True date_ge_trans by (auto simp: sorted_desc_def)
    with True Cons.prems show ?thesis by (simp add: sorted_desc_def)
  next
    case False
    then have xr: "date_ge (r_upload_date x) (r_upload_date r)"
      using date_ge_total by blast
    have tl: "sorted_desc (insert_desc r xs)"
      using Cons by (simp add: sorted_desc_def)
    with False xr Cons.prems show ?thesis
      by (auto simp: sorted_desc_def set_insert_desc)
  qed
qed

lemma sorted_order_by: "sorted_desc (order_by_upload_date_desc rs)"
  by (induction rs) (simp_all add: sorted_desc_def sorted_insert_desc [unfolded sorted_desc_def])

lemma where_clause_append:
  "where_clause (xs @ ys) d = (where_clause xs d \<and> where_clause ys d)"
  by (induction xs) auto

lemma r_id_join_case: "r_id (join_case cs d) = d_id d"
  by (simp add: join_case_def Let_def)

lemma set_fetchall:
  "set (fetchall db cs) = join_case (cases db) ` {d \<in> set (documents db). where_clause cs d}"
  by (simp add: fetchall_def set_order_by)

lemma length_fetchall:
  "length (fetchall db cs) = length (filter (where_clause cs) (documents db))"
  by (simp add: fetchall_def length_order_by)

lemma where_clause_build_query:
  "where_clause (build_query rq) d =
     ((case case_id rq of None \<Rightarrow> True | Some c \<Rightarrow> c = 0 \<or> d_case_id d = Some c)
      \<and> (case document_ids rq of None \<Rightarrow> True | Some ids \<Rightarrow> ids = [] \<or> d_id d \<in> set ids)
      \<and> (case date_from rq of
            None \<Rightarrow> True
          | Some t \<Rightarrow> (case d_upload_date d of None \<Rightarrow> False | Some u \<Rightarrow> t \<le> u))
      \<and> (case date_to rq of
            None \<Rightarrow> True
          | Some t \<Rightarrow> (case d_upload_date d of None \<Rightarrow> False | Some u \<Rightarrow> u \<le> t)))"
  by (simp add: build_query_def where_clause_append split: option.splits)

lemma where_clause_spec:
  "case_id rq \<noteq> Some 0 \<Longrightarrow> document_ids rq \<noteq> Some [] \<Longrightarrow>
   where_clause (build_query rq) d = spec_matches rq d"
  by (auto simp: where_clause_build_query spec_matches_def split: option.splits)

section \<open>Properties of the task\<close>

lemma update_job_Some:
  "export_jobs w jid = Some j \<Longrightarrow>
   update_job jid f w = Inr (w\<lparr>export_jobs := (export_jobs w)(jid \<mapsto> f j)\<rparr>)"
  by (simp add: update_job_def)

lemma write_csv_frame: "p \<noteq> fname \<Longrightarrow> fst (write_csv f fname incl rows fs) p = fs p"
  by (simp add: write_csv_def split: option.splits prod.splits)

lemma write_json_frame: "p \<noteq> fname \<Longrightarrow> fst (write_json f now fname incl rows fs) p = fs p"
  by (simp add: write_json_def Let_def split: option.splits)

lemma write_xlsx_frame: "p \<noteq> fname \<Longrightarrow> fst (write_xlsx a f fname incl rows fs) p = fs p"
  by (simp add: write_xlsx_def Let_def split: option.splits)

lemma export_jobs_run_export: "export_jobs (fst (run_export e jid rq w)) = export_jobs w"
  by (simp add: run_export_def Let_def split: option.splits prod.splits)

lemma files_run_export_frame:
  "p \<noteq> file_name jid (format rq) \<Longrightarrow> files (fst (run_export e jid rq w)) p = files w p"
  using write_csv_frame [of p "file_name jid (format rq)" "io_fault e" "include_metadata rq"
      "query_rows (env_db e) rq" "files w"]
    write_json_frame [of p "file_name jid (format rq)" "io_fault e" "t_export e"
      "include_metadata rq" "query_rows (env_db e) rq" "files w"]
    write_xlsx_frame [of p "file_name jid (format rq)" "xlsx_available e" "io_fault e"
      "include_metadata rq" "query_rows (env_db e) rq" "files w"]
  by (auto simp: run_export_def Let_def split: option.splits prod.splits)

lemma snd_run_export_jobs:
  "snd (run_export e jid rq (w\<lparr>export_jobs := m\<rparr>)) = snd (run_export e jid rq w)"
  by (simp add: run_export_def Let_def write_csv_def write_json_def write_xlsx_def
      split: option.splits prod.splits)

lemma files_run_export_jobs:
  "files (fst (run_export e jid rq (w\<lparr>export_jobs := m\<rparr>))) = files (fst (run_export e jid rq w))"
  by (simp add: run_export_def Let_def split: option.splits prod.splits)

lemma process_export_trace_Some:
  assumes "export_jobs w jid = Some j"
  shows "\<exists>w1 w3.
     process_export_trace e jid rq w = Inr [w1, w3]
     \<and> export_jobs w1 = (export_jobs w)(jid \<mapsto> j\<lparr>status := ''processing''\<rparr>)
     \<and> files w1 = files w
     \<and> export_jobs w3 = (export_jobs w)(jid \<mapsto> final_job e jid j (snd (run_export e jid rq w)))
     \<and> files w3 = files (fst (run_export e jid rq w))"
proof -
  let ?w1 = "w\<lparr>export_jobs := (export_jobs w)(jid \<mapsto> j\<lparr>status := ''processing''\<rparr>)\<rparr>"
  have mp: "mark_processing jid w = Inr ?w1"
    using assms by (simp add: mark_processing_def update_job_def)
  obtain w2 r where run: "run_export e jid rq ?w1 = (w2, r)"
    by (cases "run_export e jid rq ?w1")
  have r: "r = snd (run_export e jid rq w)"
    using run snd_run_export_jobs [where e = e and jid = jid and rq = rq and w = w]
    by (metis snd_conv)
  have f2: "files w2 = files (fst (run_export e jid rq w))"
    using run files_run_export_jobs [where e = e and jid = jid and rq = rq and w = w]
    by (metis fst_conv)
  have j2: "export_jobs w2 = (export_jobs w)(jid \<mapsto> j\<lparr>status := ''processing''\<rparr>)"
    using run export_jobs_run_export [of e jid rq ?w1] by simp
  show ?thesis
  proof (cases r)
    case (Inl x)
    then show ?thesis
      using mp run r f2 j2
      by (simp add: process_export_trace_def on_exception_def update_job_def final_job_def)
  next
    case (Inr rows)
    then show ?thesis
      using mp run r f2 j2
      by (simp add: process_export_trace_def mark_completed_def update_job_def final_job_def)
  qed
qed

lemma writerows_done:
  "writerows f k acc ls = (ls', None) \<Longrightarrow> ls' = acc @ ls"
proof (induction ls arbitrary: k acc)
  case Nil
  then show ?case by simp
next
  case (Cons l ls)
  from Cons.prems have nf: "fault_at f k = None"
    by (simp split: option.splits)
  with Cons.prems have "writerows f (Suc k) (acc @ [l]) ls = (ls', None)"
    by simp
  then have "ls' = (acc @ [l]) @ ls" by (rule Cons.IH)
  then show ?case by simp
qed

lemma cell_id_csv_data: "cell_id (csv_data incl r) = Some (r_id r)"
  by (simp add: csv_data_def core_values_def)

lemma doc_id_json_doc: "doc_id (json_doc incl r) = Some (r_id r)"
  by (simp add: doc_id_def json_doc_def)

lemma run_export_rows:
  "snd (run_export e jid rq w) = Inr rows \<Longrightarrow> rows = query_rows (env_db e) rq"
  by (auto simp: run_export_def Let_def split: option.splits prod.splits if_splits)

lemma run_export_csv_file:
  assumes "snd (run_export e jid rq w) = Inr rows" and "format rq = ''csv''"
  shows "files (fst (run_export e jid rq w)) =
    (files w)(file_name jid ''csv'' \<mapsto>
       CsvFile (map PStr (csv_headers (include_metadata rq))
                # map (csv_data (include_metadata rq)) rows))"
  using assms
  by (auto simp: run_export_def Let_def write_csv_def
      split: option.splits prod.splits dest: writerows_done)

lemma run_export_json_file:
  assumes "snd (run_export e jid rq w) = Inr rows" and "format rq = ''json''"
  shows "files (fst (run_export e jid rq w)) =
    (files w)(file_name jid ''json'' \<mapsto>
       JsonFile (t_export e) (int (length rows)) (map (json_doc (include_metadata rq)) rows))"
  using assms
  by (auto simp: run_export_def Let_def write_json_def split: option.splits prod.splits)

lemma run_export_xlsx_file:
  assumes "snd (run_export e jid rq w) = Inr rows" and "format rq = ''xlsx''"
  shows "files (fst (run_export e jid rq w)) =
    (files w)(file_name jid ''xlsx'' \<mapsto> XlsxFile (map (xlsx_record (include_metadata rq)) rows))"
  using assms
  by (auto simp: run_export_def Let_def write_xlsx_def split: option.splits prod.splits if_splits)

lemma run_export_before_open:
  assumes "db_fault e \<noteq> None \<or> mkdir_fault e \<noteq> None
     \<or> (fault_at (io_fault e) 0 \<noteq> None
          \<and> (format rq = ''csv'' \<or> format rq = ''json'' \<or> format rq = ''xlsx''))
     \<or> (format rq = ''xlsx'' \<and> \<not> xlsx_available e)"
  shows "isl (snd (run_export e jid rq w)) \<and> files (fst (run_export e jid rq w)) = files w"
  using assms
  by (auto simp: run_export_def Let_def write_csv_def write_json_def write_xlsx_def
      split: option.splits prod.splits)

lemma run_export_xlsx_unavailable:
  assumes "format rq = ''xlsx''" and "\<not> xlsx_available e"
    and "db_fault e = None" and "mkdir_fault e = None"
  shows "snd (run_export e jid rq w) =
    Inl (Exception ''pandas and openpyxl required for XLSX export'')"
  using assms by (simp add: run_export_def Let_def write_xlsx_def)

lemma process_export_Some:
  assumes "export_jobs w jid = Some j"
  shows "\<exists>w'. process_export e jid rq w = Inr w'
     \<and> export_jobs w' = (export_jobs w)(jid \<mapsto> final_job e jid j (snd (run_export e jid rq w)))
     \<and> files w' = files (fst (run_export e jid rq w))"
  using process_export_trace_Some [OF assms, of e rq]
  by (auto simp: process_export_def)

text \<open>Unfolding the example data and the task on it.\<close>

lemmas ex_defs = doc_a_def doc_b_def doc_c_def db1_def rq_all_def

lemmas world_defs = w_empty_def stamp1_def jid1_def job1_def w_pending_def env_ok_def

lemmas run_defs =
  process_export_def process_export_trace_def mark_processing_def update_job_def
  run_export_def mark_completed_def on_exception_def file_name_def
  write_csv_def write_json_def write_xlsx_def fault_at_def
  query_rows_def fetchall_def build_query_def join_case_def job_of_def

section \<open>Properties of sequences of events\<close>

lemma event_states_other_job:
  assumes "\<not> touches jid ev"
  shows "list_all (\<lambda>w'. export_jobs w' jid = export_jobs w jid) (event_states ev w)"
proof (cases ev)
  case (Submit stamp now rq)
  with assms show ?thesis by (simp add: export_documents_def Let_def)
next
  case (Task e jid2 rq)
  with assms have ne: "jid2 \<noteq> jid" by simp
  show ?thesis
  proof (cases "export_jobs w jid2")
    case None
    then have "process_export_trace e jid2 rq w = Inl (KeyError jid2)"
      by (simp add: process_export_trace_def mark_processing_def on_exception_def update_job_def)
    with Task show ?thesis by simp
  next
    case (Some j)
    from process_export_trace_Some [OF Some, of e rq] ne Task show ?thesis by auto
  qed
qed (simp_all)

lemma last_run_events_Cons:
  "last (w # run_events (ev # evs) w) =
     last (last (w # event_states ev w) # run_events evs (last (w # event_states ev w)))"
  by (simp add: last_append)

lemma run_events_other_job:
  assumes "\<not> list_ex (touches jid) evs"
  shows "list_all (\<lambda>w'. export_jobs w' jid = export_jobs w jid) (run_events evs w)
     \<and> export_jobs (last (w # run_events evs w)) jid = export_jobs w jid"
  using assms
proof (induction evs arbitrary: w)
  case Nil
  then show ?case by simp
next
  case (Cons ev evs)
  let ?w1 = "last (w # event_states ev w)"
  from Cons.prems have nt: "\<not> touches jid ev" and rest: "\<not> list_ex (touches jid) evs"
    by simp_all
  have es: "list_all (\<lambda>w'. export_jobs w' jid = export_jobs w jid) (event_states ev w)"
    using nt by (rule event_states_other_job)
  then have w1: "export_jobs ?w1 jid = export_jobs w jid"
    by (cases "event_states ev w" rule: rev_cases) (simp_all)
  from Cons.IH [OF rest, of ?w1] w1
  have ih1: "list_all (\<lambda>w'. export_jobs w' jid = export_jobs w jid) (run_events evs ?w1)"
    and ih2: "export_jobs (last (?w1 # run_events evs ?w1)) jid = export_jobs w jid"
    by simp_all
  from es ih1 have "list_all (\<lambda>w'. export_jobs w' jid = export_jobs w jid)
      (run_events (ev # evs) w)" by simp
  moreover from ih2 have "export_jobs (last (w # run_events (ev # evs) w)) jid = export_jobs w jid"
    by (simp only: last_run_events_Cons)
  ultimately show ?case by simp
qed

lemma run_events_append:
  "run_events (xs @ ys) w = run_events xs w @ run_events ys (last (w # run_events xs w))"
proof (induction xs arbitrary: w)
  case Nil
  then show ?case by simp
next
  case (Cons ev xs)
  show ?case
    using Cons.IH [of "last (w # event_states ev w)"]
    by (simp add: last_append)
qed

lemma map_const_replicate:
  "list_all (\<lambda>x. f x = c) xs \<Longrightarrow> map f xs = replicate (length xs) c"
  by (induction xs) simp_all

lemma remdups_adj_three:
  assumes "a \<noteq> b" and "b \<noteq> c"
  shows "remdups_adj (a # replicate n a @ [b, c] @ replicate m c) = [a, b, c]"
proof -
  have tailc: "remdups_adj (c # replicate m c) = [c]"
    by (induction m) simp_all
  have "remdups_adj (b # c # replicate m c) = [b, c]"
    using assms(2) tailc by simp
  then have "remdups_adj (a # b # c # replicate m c) = [a, b, c]"
    using assms(1) by simp
  then show ?thesis
    by (induction n) simp_all
qed

lemma job_lifecycle_states:
  assumes jid: "jid = ''export_'' @ stamp"
    and mid: "\<not> list_ex (touches jid) mid"
    and post: "\<not> list_ex (touches jid) post"
    and job: "job = \<lparr> job_id = jid, status = ''pending'', job_format = format rq,
        created_at = now, completed_at = None, download_url = None, total_records = 0,
        error_message = None \<rparr>"
  shows "\<exists>n m r.
     map (\<lambda>w'. export_jobs w' jid)
       (run_events (Submit stamp now rq # mid @ Task e jid rq # post) w) =
     Some job # replicate n (Some job)
       @ [Some (job\<lparr>status := ''processing''\<rparr>), Some (final_job e jid job r)]
       @ replicate m (Some (final_job e jid job r))"
proof -
  define w1 where "w1 = w\<lparr>export_jobs := (export_jobs w)(jid \<mapsto> job)\<rparr>"
  define w2 where "w2 = last (w1 # run_events mid w1)"
  have sub: "event_states (Submit stamp now rq) w = [w1]"
    using jid job by (simp add: export_documents_def Let_def w1_def)
  have j1: "export_jobs w1 jid = Some job" by (simp add: w1_def)
  from run_events_other_job [OF mid, of w1] j1
  have ms: "list_all (\<lambda>w'. export_jobs w' jid = Some job) (run_events mid w1)"
    and j2: "export_jobs w2 jid = Some job"
    by (simp_all add: w2_def)
  define r where "r = snd (run_export e jid rq w2)"
  from process_export_trace_Some [OF j2, of e rq]
  obtain wa wb where tr: "process_export_trace e jid rq w2 = Inr [wa, wb]"
    and ja: "export_jobs wa jid = Some (job\<lparr>status := ''processing''\<rparr>)"
    and jb: "export_jobs wb jid = Some (final_job e jid job r)"
    by (auto simp: r_def)
  from run_events_other_job [OF post, of wb] jb
  have ps: "list_all (\<lambda>w'. export_jobs w' jid = Some (final_job e jid job r)) (run_events post wb)"
    by simp
  have "run_events (Submit stamp now rq # mid @ Task e jid rq # post) w =
      [w1] @ run_events (mid @ Task e jid rq # post) w1"
    by (simp only: run_events.simps sub) simp
  also have "run_events (mid @ Task e jid rq # post) w1 =
      run_events mid w1 @ run_events (Task e jid rq # post) w2"
    unfolding w2_def by (rule run_events_append)
  also have "run_events (Task e jid rq # post) w2 = [wa, wb] @ run_events post wb"
    using tr by simp
  finally have split: "run_events (Submit stamp now rq # mid @ Task e jid rq # post) w =
      [w1] @ run_events mid w1 @ [wa, wb] @ run_events post wb" .
  have eq: "map (\<lambda>w'. export_jobs w' jid)
       (run_events (Submit stamp now rq # mid @ Task e jid rq # post) w) =
     Some job # replicate (length (run_events mid w1)) (Some job)
       @ [Some (job\<lparr>status := ''processing''\<rparr>), Some (final_job e jid job r)]
       @ replicate (length (run_events post wb)) (Some (final_job e jid job r))"
    unfolding split
    using map_const_replicate [OF ms] map_const_replicate [OF ps] ja jb j1
    by simp
  show ?thesis
    by (intro exI) (rule eq)
qed

lemma run_export_other_format:
  assumes "format rq \<noteq> ''csv''" and "format rq \<noteq> ''json''" and "format rq \<noteq> ''xlsx''"
  shows "files (fst (run_export e jid rq w)) = files w"
  using assms by (simp add: run_export_def Let_def split: option.splits)

lemmas event_defs =
  export_documents_def Let_def status_sequence_def stamp2_def jid2_def

section \<open>The claims\<close>

subsection \<open>C1: submitting an unsupported format\<close>

text \<open>
  Against C1. The request with format \<^verbatim>\<open>pdf\<close> is not rejected: \<^verbatim>\<open>export_documents\<close>
  returns the job, hands the task over, and the job table holds a pending record for
  it.
\<close>

theorem submit_unsupported_format_counterexample:
  "export_documents stamp1 1000 (rq_all\<lparr>format := ''pdf''\<rparr>) w_empty =
     Inr (job1 ''pdf'', (jid1, rq_all\<lparr>format := ''pdf''\<rparr>), w_pending ''pdf'')"
  by (simp add: export_documents_def Let_def world_defs rq_all_def)

text \<open>
  C1, amended. \<^verbatim>\<open>export_documents\<close> checks no format: for every request, whatever its
  format, it never answers with an error; it returns a job in status \<^verbatim>\<open>pending\<close> that
  echoes the requested format, stores that record under the job id, schedules the
  processor for the id and the request, and leaves the export directory alone.
\<close>

theorem submit_stores_pending_job:
  "\<exists>job w'.
     export_documents stamp now rq w = Inr (job, (job_id job, rq), w')
     \<and> job_id job = ''export_'' @ stamp
     \<and> status job = ''pending''
     \<and> job_format job = format rq
     \<and> export_jobs w' = (export_jobs w)(job_id job \<mapsto> job)
     \<and> files w' = files w"
  by (simp add: export_documents_def Let_def)

subsection \<open>C2: a failure is recorded on the job\<close>

text \<open>
  Against C2. With a database that refuses the query the job ends \<^verbatim>\<open>failed\<close>, and its
  \<^verbatim>\<open>completed_at\<close> is still \<^verbatim>\<open>None\<close>: the handler of lines 241-243 assigns \<^verbatim>\<open>status\<close>
  and \<^verbatim>\<open>error_message\<close> only.
\<close>

theorem failure_leaves_completed_at_counterexample:
  "map_option status
     (job_of (process_export (env_ok\<lparr>db_fault := Some ''connection refused''\<rparr>) jid1 rq_all
        (w_pending ''csv'')) jid1) = Some ''failed''
   \<and> map_option completed_at
     (job_of (process_export (env_ok\<lparr>db_fault := Some ''connection refused''\<rparr>) jid1 rq_all
        (w_pending ''csv'')) jid1) = Some None"
  by (simp add: run_defs world_defs rq_all_def)

text \<open>
  C2, amended. For every job of the table whose processing raises during the query, the
  directory setup or the serialisation, the task ends without an exception of its own,
  the job has status \<^verbatim>\<open>failed\<close> and \<^verbatim>\<open>error_message\<close> is the text of the exception;
  \<^verbatim>\<open>completed_at\<close> is left as it was.
\<close>

theorem failure_recorded_on_job:
  assumes "export_jobs w jid = Some j"
    and "snd (run_export e jid rq w) = Inl x"
  shows "\<exists>w' j'.
     process_export e jid rq w = Inr w'
     \<and> export_jobs w' jid = Some j'
     \<and> status j' = ''failed''
     \<and> error_message j' = Some (str_of x)
     \<and> completed_at j' = completed_at j"
  using process_export_Some [OF assms(1), of e rq] assms(2)
  by (auto simp: final_job_def)

text \<open>The amended C2 at the refused query: the hypotheses hold, and so does the conclusion.\<close>

theorem failure_recorded_on_job_witness:
  "export_jobs (w_pending ''csv'') jid1 = Some (job1 ''csv'')
   \<and> snd (run_export (env_ok\<lparr>db_fault := Some ''connection refused''\<rparr>) jid1 rq_all
        (w_pending ''csv'')) = Inl (Exception ''connection refused'')
   \<and> (\<exists>w' j'.
        process_export (env_ok\<lparr>db_fault := Some ''connection refused''\<rparr>) jid1 rq_all
          (w_pending ''csv'') = Inr w'
        \<and> export_jobs w' jid1 = Some j'
        \<and> status j' = ''failed''
        \<and> error_message j' = Some ''connection refused''
        \<and> completed_at j' = None)"
proof -
  let ?e = "env_ok\<lparr>db_fault := Some ''connection refused''\<rparr>"
  have a: "export_jobs (w_pending ''csv'') jid1 = Some (job1 ''csv'')"
    by (simp add: w_pending_def)
  have b: "snd (run_export ?e jid1 rq_all (w_pending ''csv'')) =
      Inl (Exception ''connection refused'')"
    by (simp add: run_export_def env_ok_def)
  have c: "completed_at (job1 ''csv'') = None"
    by (simp add: job1_def)
  from failure_recorded_on_job [OF a b] a b c show ?thesis by simp
qed

subsection \<open>C3: the sequence of statuses\<close>

text \<open>
  Against C3. The job id is the clock reading of line 59, so two submissions in one
  reading get the same id, and line 72 stores the second record over the first. Both
  tasks then run on the one record: the second moves it from \<^verbatim>\<open>completed\<close> back to
  \<^verbatim>\<open>processing\<close>.
\<close>

theorem reused_job_id_counterexample:
  "remdups_adj (status_sequence jid1
     (run_events [Submit stamp1 1000 rq_all, Submit stamp1 1000 rq_all,
                  Task env_ok jid1 rq_all, Task env_ok jid1 rq_all] w_empty)) =
   [Some ''pending'', Some ''processing'', Some ''completed'',
    Some ''processing'', Some ''completed'']"
  by (simp add: run_defs world_defs ex_defs event_defs)

text \<open>
  C3, amended. For every submitted job whose id is given to no other submission, while
  its one task runs once: whatever else happens in between and afterwards (requests
  for its status or its file, submissions and tasks of other job ids), the sequence of
  status values it takes from its submission on is exactly \<^verbatim>\<open>pending\<close>, \<^verbatim>\<open>processing\<close>,
  \<^verbatim>\<open>completed\<close> or \<^verbatim>\<open>pending\<close>, \<^verbatim>\<open>processing\<close>, \<^verbatim>\<open>failed\<close>. It starts at \<^verbatim>\<open>pending\<close>,
  never moves backward, never skips \<^verbatim>\<open>processing\<close>, and takes no further transition
  after the terminal state. \<open>remdups_adj\<close> drops the repetitions of a status in
  successive states.
\<close>

theorem status_sequence_without_reuse:
  assumes "jid = ''export_'' @ stamp"
    and "\<not> list_ex (touches jid) mid"
    and "\<not> list_ex (touches jid) post"
  shows "remdups_adj (status_sequence jid
       (run_events (Submit stamp now rq # mid @ Task e jid rq # post) w)) =
       [Some ''pending'', Some ''processing'', Some ''completed'']
     \<or> remdups_adj (status_sequence jid
       (run_events (Submit stamp now rq # mid @ Task e jid rq # post) w)) =
       [Some ''pending'', Some ''processing'', Some ''failed'']"
proof -
  define job where "job = \<lparr> job_id = jid, status = ''pending'', job_format = format rq,
        created_at = now, completed_at = None, download_url = None, total_records = 0,
        error_message = None \<rparr>"
  from job_lifecycle_states [OF assms job_def, of e w]
  obtain n m r where sq: "map (\<lambda>w'. export_jobs w' jid)
       (run_events (Submit stamp now rq # mid @ Task e jid rq # post) w) =
     Some job # replicate n (Some job)
       @ [Some (job\<lparr>status := ''processing''\<rparr>), Some (final_job e jid job r)]
       @ replicate m (Some (final_job e jid job r))"
    by (elim exE)
  let ?s = "status (final_job e jid job r)"
  have "status_sequence jid (run_events (Submit stamp now rq # mid @ Task e jid rq # post) w) =
      map (map_option status) (map (\<lambda>w'. export_jobs w' jid)
       (run_events (Submit stamp now rq # mid @ Task e jid rq # post) w))"
    by (simp add: status_sequence_def)
  also have "\<dots> = Some ''pending'' # replicate n (Some ''pending'')
       @ [Some ''processing'', Some ?s] @ replicate m (Some ?s)"
    by (simp only: sq) (simp add: job_def)
  finally have sq2: "status_sequence jid
       (run_events (Submit stamp now rq # mid @ Task e jid rq # post) w) =
     Some ''pending'' # replicate n (Some ''pending'')
       @ [Some ''processing'', Some ?s] @ replicate m (Some ?s)" .
  have s: "?s = ''completed'' \<or> ?s = ''failed''"
    by (cases r) (simp_all add: final_job_def)
  have ne: "Some ''processing'' \<noteq> Some ?s"
    using s by auto
  have "remdups_adj (status_sequence jid
       (run_events (Submit stamp now rq # mid @ Task e jid rq # post) w)) =
     [Some ''pending'', Some ''processing'', Some ?s]"
    unfolding sq2 by (rule remdups_adj_three) (use ne in simp_all)
  with s show ?thesis by auto
qed

text \<open>
  The amended C3 on the example: another job is submitted and runs around the job, and
  its status and its file are asked for.
\<close>

theorem status_sequence_without_reuse_witness:
  "jid1 = ''export_'' @ stamp1
   \<and> \<not> list_ex (touches jid1) [Submit stamp2 1001 (rq_all\<lparr>format := ''json''\<rparr>), GetJob jid1]
   \<and> \<not> list_ex (touches jid1)
         [Task env_ok jid2 (rq_all\<lparr>format := ''json''\<rparr>), Download ''20240102'' jid1]
   \<and> remdups_adj (status_sequence jid1
        (run_events
           (Submit stamp1 1000 rq_all
            # [Submit stamp2 1001 (rq_all\<lparr>format := ''json''\<rparr>), GetJob jid1]
            @ Task env_ok jid1 rq_all
            # [Task env_ok jid2 (rq_all\<lparr>format := ''json''\<rparr>), Download ''20240102'' jid1])
           w_empty)) =
       [Some ''pending'', Some ''processing'', Some ''completed'']"
proof -
  let ?mid = "[Submit stamp2 1001 (rq_all\<lparr>format := ''json''\<rparr>), GetJob jid1]"
  let ?post = "[Task env_ok jid2 (rq_all\<lparr>format := ''json''\<rparr>), Download ''20240102'' jid1]"
  have a: "jid1 = ''export_'' @ stamp1" by (simp add: jid1_def stamp1_def)
  have b: "\<not> list_ex (touches jid1) ?mid" by (simp add: jid1_def stamp2_def)
  have c: "\<not> list_ex (touches jid1) ?post" by (simp add: jid1_def jid2_def)
  have ev: "remdups_adj (status_sequence jid1
        (run_events (Submit stamp1 1000 rq_all # ?mid @ Task env_ok jid1 rq_all # ?post)
           w_empty)) \<noteq> [Some ''pending'', Some ''processing'', Some ''failed'']"
    by (simp add: run_defs world_defs ex_defs event_defs)
  from status_sequence_without_reuse [OF a b c, of 1000 rq_all env_ok w_empty] ev a b c
  show ?thesis by simp
qed

subsection \<open>C4: downloading\<close>



subsection \<open>C5: the filters of the query\<close>

text \<open>
  Against C5. A request that gives the empty list of document ids exports all three
  documents of the example, while membership in the empty list, the filter as the claim
  words it, holds for none.
\<close>

theorem empty_id_list_counterexample:
  "document_ids (rq_all\<lparr>document_ids := Some []\<rparr>) = Some []
   \<and> map r_id (query_rows db1 (rq_all\<lparr>document_ids := Some []\<rparr>)) = [5, 8, 3]
   \<and> filter (spec_matches (rq_all\<lparr>document_ids := Some []\<rparr>)) (documents db1) = []"
  by (simp add: ex_defs query_rows_def fetchall_def build_query_def join_case_def spec_matches_def)

text \<open>
  C5, amended. For every request whose case id is not 0 and whose list of document ids
  is not empty, the rows are those of the documents that pass every given filter at once:
  equality on the case id, membership in the id list, inclusive lower and upper bound on
  the upload date. For every request the rows are ordered by upload date descending,
  rows without a date first. For the id list \<^verbatim>\<open>[3, 5, 9]\<close> and no other criterion the
  exported ids are exactly those of 3, 5 and 9 that the store has.
\<close>

theorem query_rows_filters:
  "(case_id rq \<noteq> Some 0 \<and> document_ids rq \<noteq> Some [] \<longrightarrow>
      set (query_rows db0 rq) =
        join_case (cases db0) ` {d \<in> set (documents db0). spec_matches rq d})
   \<and> sorted_desc (query_rows db0 rq)
   \<and> (document_ids rq = Some [3, 5, 9] \<and> case_id rq = None \<and> date_from rq = None
        \<and> date_to rq = None \<longrightarrow>
      r_id ` set (query_rows db0 rq) = {3, 5, 9} \<inter> d_id ` set (documents db0))"
proof (intro conjI impI)
  assume "case_id rq \<noteq> Some 0 \<and> document_ids rq \<noteq> Some []"
  then show "set (query_rows db0 rq) =
      join_case (cases db0) ` {d \<in> set (documents db0). spec_matches rq d}"
    by (simp add: query_rows_def set_fetchall where_clause_spec)
next
  show "sorted_desc (query_rows db0 rq)"
    by (simp add: query_rows_def fetchall_def sorted_order_by)
next
  assume h: "document_ids rq = Some [3, 5, 9] \<and> case_id rq = None \<and> date_from rq = None
        \<and> date_to rq = None"
  then have "\<And>d. where_clause (build_query rq) d = (d_id d \<in> {3, 5, 9})"
    by (simp add: where_clause_build_query)
  then show "r_id ` set (query_rows db0 rq) = {3, 5, 9} \<inter> d_id ` set (documents db0)"
    by (auto simp: query_rows_def set_fetchall r_id_join_case image_iff)
qed

text \<open>The amended C5 on the example: of 3, 5 and 9 the store has 3 and 5.\<close>

theorem query_rows_filters_witness:
  "document_ids (rq_all\<lparr>document_ids := Some [3, 5, 9]\<rparr>) = Some [3, 5, 9]
   \<and> case_id (rq_all\<lparr>document_ids := Some [3, 5, 9]\<rparr>) = None
   \<and> date_from (rq_all\<lparr>document_ids := Some [3, 5, 9]\<rparr>) = None
   \<and> date_to (rq_all\<lparr>document_ids := Some [3, 5, 9]\<rparr>) = None
   \<and> set (query_rows db1 (rq_all\<lparr>document_ids := Some [3, 5, 9]\<rparr>)) =
       join_case (cases db1) `
         {d \<in> set (documents db1). spec_matches (rq_all\<lparr>document_ids := Some [3, 5, 9]\<rparr>) d}
   \<and> sorted_desc (query_rows db1 (rq_all\<lparr>document_ids := Some [3, 5, 9]\<rparr>))
   \<and> r_id ` set (query_rows db1 (rq_all\<lparr>document_ids := Some [3, 5, 9]\<rparr>)) = {3, 5}"
proof -
  let ?rq = "rq_all\<lparr>document_ids := Some [3, 5, 9]\<rparr>"
  have h: "document_ids ?rq = Some [3, 5, 9] \<and> case_id ?rq = None \<and> date_from ?rq = None
      \<and> date_to ?rq = None"
    by (simp add: rq_all_def)
  then have g: "case_id ?rq \<noteq> Some 0 \<and> document_ids ?rq \<noteq> Some []"
    by simp
  have ids: "{3, 5, 9} \<inter> d_id ` set (documents db1) = {3, 5}"
    by (simp add: ex_defs)
  from query_rows_filters [of ?rq db1] h g
  have "set (query_rows db1 ?rq) =
      join_case (cases db1) ` {d \<in> set (documents db1). spec_matches ?rq d}"
    and "sorted_desc (query_rows db1 ?rq)"
    and "r_id ` set (query_rows db1 ?rq) = {3, 5, 9} \<inter> d_id ` set (documents db1)"
    by blast+
  with h ids show ?thesis by simp
qed

subsection \<open>C6: files and failure\<close>

text \<open>
  Against C6. When the second write to the CSV file raises, the job ends \<^verbatim>\<open>failed\<close>
  and the file with its header line stays at the path of the job; and a job with format
  \<^verbatim>\<open>pdf\<close> ends \<^verbatim>\<open>completed\<close> without any file at its path.
\<close>

theorem partial_file_remains_counterexample:
  "map_option status
     (job_of (process_export (env_ok\<lparr>io_fault := Some (2, ''No space left on device'')\<rparr>)
        jid1 rq_all (w_pending ''csv'')) jid1) = Some ''failed''
   \<and> file_of (process_export (env_ok\<lparr>io_fault := Some (2, ''No space left on device'')\<rparr>)
        jid1 rq_all (w_pending ''csv'')) (file_name jid1 ''csv'') =
       Some (CsvFile [map PStr (csv_headers True)])
   \<and> map_option status
     (job_of (process_export env_ok jid1 (rq_all\<lparr>format := ''pdf''\<rparr>) (w_pending ''pdf'')) jid1)
       = Some ''completed''
   \<and> file_of (process_export env_ok jid1 (rq_all\<lparr>format := ''pdf''\<rparr>) (w_pending ''pdf''))
        (file_name jid1 ''pdf'') = None"
  by (simp add: run_defs world_defs ex_defs file_of_def)

text \<open>
  C6, amended. The task touches no path of the export directory other than
  \<^verbatim>\<open>{job_id}.{format}\<close>. A job that fails before its file is opened (the query raises,
  the directory setup raises, opening the file raises, or the format is \<^verbatim>\<open>xlsx\<close>
  without the spreadsheet library) ends \<^verbatim>\<open>failed\<close> and leaves every file as it was. A
  job that ends \<^verbatim>\<open>completed\<close> with format \<^verbatim>\<open>csv\<close>, \<^verbatim>\<open>json\<close> or \<^verbatim>\<open>xlsx\<close> has written
  exactly the one file at that path, in full: the header line and one line for each row
  of the query; the object with the export date, the number of rows and one document
  for each row; one record for each row. A job with any other format writes no file.
\<close>

theorem files_written_by_job:
  assumes "export_jobs w jid = Some j"
  shows "\<exists>w' j'.
     process_export e jid rq w = Inr w'
     \<and> export_jobs w' jid = Some j'
     \<and> (\<forall>p. p \<noteq> file_name jid (format rq) \<longrightarrow> files w' p = files w p)
     \<and> (db_fault e \<noteq> None \<or> mkdir_fault e \<noteq> None
          \<or> (fault_at (io_fault e) 0 \<noteq> None
               \<and> (format rq = ''csv'' \<or> format rq = ''json'' \<or> format rq = ''xlsx''))
          \<or> (format rq = ''xlsx'' \<and> \<not> xlsx_available e)
        \<longrightarrow> status j' = ''failed'' \<and> files w' = files w)
     \<and> (status j' = ''completed'' \<and> format rq = ''csv'' \<longrightarrow>
          files w' = (files w)(file_name jid ''csv'' \<mapsto>
            CsvFile (map PStr (csv_headers (include_metadata rq))
                     # map (csv_data (include_metadata rq)) (query_rows (env_db e) rq))))
     \<and> (status j' = ''completed'' \<and> format rq = ''json'' \<longrightarrow>
          files w' = (files w)(file_name jid ''json'' \<mapsto>
            JsonFile (t_export e) (int (length (query_rows (env_db e) rq)))
              (map (json_doc (include_metadata rq)) (query_rows (env_db e) rq))))
     \<and> (status j' = ''completed'' \<and> format rq = ''xlsx'' \<longrightarrow>
          files w' = (files w)(file_name jid ''xlsx'' \<mapsto>
            XlsxFile (map (xlsx_record (include_metadata rq)) (query_rows (env_db e) rq))))
     \<and> (format rq \<noteq> ''csv'' \<and> format rq \<noteq> ''json'' \<and> format rq \<noteq> ''xlsx'' \<longrightarrow>
          files w' = files w)"
proof -
  from process_export_Some [OF assms, of e rq]
  obtain w' where pe: "process_export e jid rq w = Inr w'"
    and jobs: "export_jobs w' = (export_jobs w)(jid \<mapsto> final_job e jid j (snd (run_export e jid rq w)))"
    and fs: "files w' = files (fst (run_export e jid rq w))"
    by blast
  define j' where "j' = final_job e jid j (snd (run_export e jid rq w))"
  have jj: "export_jobs w' jid = Some j'"
    using jobs by (simp add: j'_def)
  have frame: "\<forall>p. p \<noteq> file_name jid (format rq) \<longrightarrow> files w' p = files w p"
    using fs files_run_export_frame by simp
  have early: "db_fault e \<noteq> None \<or> mkdir_fault e \<noteq> None
          \<or> (fault_at (io_fault e) 0 \<noteq> None
               \<and> (format rq = ''csv'' \<or> format rq = ''json'' \<or> format rq = ''xlsx''))
          \<or> (format rq = ''xlsx'' \<and> \<not> xlsx_available e)
        \<longrightarrow> status j' = ''failed'' \<and> files w' = files w"
  proof
    assume h: "db_fault e \<noteq> None \<or> mkdir_fault e \<noteq> None
          \<or> (fault_at (io_fault e) 0 \<noteq> None
               \<and> (format rq = ''csv'' \<or> format rq = ''json'' \<or> format rq = ''xlsx''))
          \<or> (format rq = ''xlsx'' \<and> \<not> xlsx_available e)"
    from run_export_before_open [OF h, of jid w]
    have "isl (snd (run_export e jid rq w))" and "files (fst (run_export e jid rq w)) = files w"
      by simp_all
    then show "status j' = ''failed'' \<and> files w' = files w"
      using fs by (cases "snd (run_export e jid rq w)") (simp_all add: final_job_def j'_def)
  qed
  have rows: "status j' = ''completed'' \<Longrightarrow>
      snd (run_export e jid rq w) = Inr (query_rows (env_db e) rq)"
  proof -
    assume "status j' = ''completed''"
    then obtain rows where r: "snd (run_export e jid rq w) = Inr rows"
      by (cases "snd (run_export e jid rq w)") (simp_all add: final_job_def j'_def)
    with run_export_rows [OF r] show ?thesis by simp
  qed
  have csv: "status j' = ''completed'' \<and> format rq = ''csv'' \<longrightarrow>
          files w' = (files w)(file_name jid ''csv'' \<mapsto>
            CsvFile (map PStr (csv_headers (include_metadata rq))
                     # map (csv_data (include_metadata rq)) (query_rows (env_db e) rq)))"
    using rows run_export_csv_file [of e jid rq w "query_rows (env_db e) rq"] fs by simp
  have json: "status j' = ''completed'' \<and> format rq = ''json'' \<longrightarrow>
          files w' = (files w)(file_name jid ''json'' \<mapsto>
            JsonFile (t_export e) (int (length (query_rows (env_db e) rq)))
              (map (json_doc (include_metadata rq)) (query_rows (env_db e) rq)))"
    using rows run_export_json_file [of e jid rq w "query_rows (env_db e) rq"] fs by simp
  have xlsx: "status j' = ''completed'' \<and> format rq = ''xlsx'' \<longrightarrow>
          files w' = (files w)(file_name jid ''xlsx'' \<mapsto>
            XlsxFile (map (xlsx_record (include_metadata rq)) (query_rows (env_db e) rq)))"
    using rows run_export_xlsx_file [of e jid rq w "query_rows (env_db e) rq"] fs by simp
  have other: "format rq \<noteq> ''csv'' \<and> format rq \<noteq> ''json'' \<and> format rq \<noteq> ''xlsx'' \<longrightarrow>
          files w' = files w"
    using run_export_other_format [of rq e jid w] fs by simp
  show ?thesis
    by (intro exI [of _ w'] exI [of _ j'] conjI) (fact pe jj frame early csv json xlsx other)+
qed

text \<open>
  The amended C6 on the example: a refused query leaves the files alone, and the run
  without faults writes the CSV file with its header and its three lines.
\<close>

theorem files_written_by_job_witness:
  "export_jobs (w_pending ''csv'') jid1 = Some (job1 ''csv'')
   \<and> db_fault (env_ok\<lparr>db_fault := Some ''connection refused''\<rparr>) \<noteq> None
   \<and> (\<exists>w' j'.
         process_export (env_ok\<lparr>db_fault := Some ''connection refused''\<rparr>) jid1 rq_all
           (w_pending ''csv'') = Inr w'
         \<and> export_jobs w' jid1 = Some j' \<and> status j' = ''failed''
         \<and> files w' = files (w_pending ''csv''))
   \<and> format rq_all = ''csv''
   \<and> (\<exists>w' j'.
         process_export env_ok jid1 rq_all (w_pending ''csv'') = Inr w'
         \<and> export_jobs w' jid1 = Some j' \<and> status j' = ''completed''
         \<and> files w' = (files (w_pending ''csv''))(file_name jid1 ''csv'' \<mapsto>
             CsvFile (map PStr (csv_headers True)
                      # map (csv_data True) (query_rows db1 rq_all))))
   \<and> length (query_rows db1 rq_all) = 3"
proof -
  let ?e = "env_ok\<lparr>db_fault := Some ''connection refused''\<rparr>"
  have a: "export_jobs (w_pending ''csv'') jid1 = Some (job1 ''csv'')"
    by (simp add: w_pending_def)
  have b: "db_fault ?e \<noteq> None" by simp
  have c: "format rq_all = ''csv''" by (simp add: rq_all_def)
  have m: "include_metadata rq_all = True" "env_db env_ok = db1"
    by (simp_all add: rq_all_def env_ok_def)
  have n: "length (query_rows db1 rq_all) = 3"
    by (simp add: ex_defs query_rows_def fetchall_def build_query_def length_order_by)
  have ev: "map_option status (job_of (process_export env_ok jid1 rq_all (w_pending ''csv'')) jid1)
      = Some ''completed''"
    by (simp add: run_defs world_defs ex_defs)
  from files_written_by_job [OF a, of ?e rq_all] b
  have first: "\<exists>w' j'.
         process_export ?e jid1 rq_all (w_pending ''csv'') = Inr w'
         \<and> export_jobs w' jid1 = Some j' \<and> status j' = ''failed''
         \<and> files w' = files (w_pending ''csv'')"
    by blast
  from files_written_by_job [OF a, of env_ok rq_all]
  obtain w' j' where pe: "process_export env_ok jid1 rq_all (w_pending ''csv'') = Inr w'"
    and j': "export_jobs w' jid1 = Some j'"
    and fin: "status j' = ''completed'' \<and> format rq_all = ''csv'' \<longrightarrow>
          files w' = (files (w_pending ''csv''))(file_name jid1 ''csv'' \<mapsto>
            CsvFile (map PStr (csv_headers (include_metadata rq_all))
                     # map (csv_data (include_metadata rq_all)) (query_rows (env_db env_ok) rq_all)))"
    by blast
  from ev pe j' have st: "status j' = ''completed''" by (simp add: job_of_def)
  with fin c m have "files w' = (files (w_pending ''csv''))(file_name jid1 ''csv'' \<mapsto>
             CsvFile (map PStr (csv_headers True)
                      # map (csv_data True) (query_rows db1 rq_all)))"
    by simp
  with pe j' st have second: "\<exists>w' j'.
         process_export env_ok jid1 rq_all (w_pending ''csv'') = Inr w'
         \<and> export_jobs w' jid1 = Some j' \<and> status j' = ''completed''
         \<and> files w' = (files (w_pending ''csv''))(file_name jid1 ''csv'' \<mapsto>
             CsvFile (map PStr (csv_headers True)
                      # map (csv_data True) (query_rows db1 rq_all)))"
    by blast
  from a b c first second n show ?thesis by blast
qed

subsection \<open>C7: the spreadsheet format without its library\<close>

text \<open>
  C7. For a request with format \<^verbatim>\<open>xlsx\<close>, when \<^verbatim>\<open>pandas\<close> or \<^verbatim>\<open>openpyxl\<close> cannot be
  imported, the export fails: the job ends \<^verbatim>\<open>failed\<close> with an error message and
  without a download URL, and no file of any format is written. When the query and the
  directory setup succeed, the message is the one that names the missing libraries.
\<close>

theorem xlsx_without_library_fails:
  assumes "export_jobs w jid = Some j"
    and "format rq = ''xlsx''"
    and "\<not> xlsx_available e"
  shows "\<exists>w' j'.
     process_export e jid rq w = Inr w'
     \<and> export_jobs w' jid = Some j'
     \<and> status j' = ''failed''
     \<and> error_message j' \<noteq> None
     \<and> download_url j' = download_url j
     \<and> files w' = files w
     \<and> (db_fault e = None \<and> mkdir_fault e = None \<longrightarrow>
          error_message j' = Some ''pandas and openpyxl required for XLSX export'')"
proof -
  from process_export_Some [OF assms(1), of e rq]
  obtain w' where pe: "process_export e jid rq w = Inr w'"
    and jobs: "export_jobs w' = (export_jobs w)(jid \<mapsto> final_job e jid j (snd (run_export e jid rq w)))"
    and fs: "files w' = files (fst (run_export e jid rq w))"
    by blast
  have h: "db_fault e \<noteq> None \<or> mkdir_fault e \<noteq> None
     \<or> (fault_at (io_fault e) 0 \<noteq> None
          \<and> (format rq = ''csv'' \<or> format rq = ''json'' \<or> format rq = ''xlsx''))
     \<or> (format rq = ''xlsx'' \<and> \<not> xlsx_available e)"
    using assms(2,3) by simp
  from run_export_before_open [OF h, of jid w]
  obtain x where x: "snd (run_export e jid rq w) = Inl x"
    and same: "files (fst (run_export e jid rq w)) = files w"
    by (cases "snd (run_export e jid rq w)") auto
  have msg: "db_fault e = None \<and> mkdir_fault e = None \<longrightarrow>
      x = Exception ''pandas and openpyxl required for XLSX export''"
    using run_export_xlsx_unavailable [OF assms(2,3), of jid w] x by auto
  from pe jobs fs x same msg show ?thesis
    by (auto simp: final_job_def)
qed

text \<open>C7 on the example, with the library switched off.\<close>

theorem xlsx_without_library_fails_witness:
  "export_jobs (w_pending ''xlsx'') jid1 = Some (job1 ''xlsx'')
   \<and> format (rq_all\<lparr>format := ''xlsx''\<rparr>) = ''xlsx''
   \<and> \<not> xlsx_available (env_ok\<lparr>xlsx_available := False\<rparr>)
   \<and> (\<exists>w' j'.
        process_export (env_ok\<lparr>xlsx_available := False\<rparr>) jid1 (rq_all\<lparr>format := ''xlsx''\<rparr>)
          (w_pending ''xlsx'') = Inr w'
        \<and> export_jobs w' jid1 = Some j'
        \<and> status j' = ''failed''
        \<and> files w' = files (w_pending ''xlsx'')
        \<and> error_message j' = Some ''pandas and openpyxl required for XLSX export'')"
proof -
  let ?e = "env_ok\<lparr>xlsx_available := False\<rparr>"
  let ?rq = "rq_all\<lparr>format := ''xlsx''\<rparr>"
  have a: "export_jobs (w_pending ''xlsx'') jid1 = Some (job1 ''xlsx'')"
    by (simp add: w_pending_def)
  have b: "format ?rq = ''xlsx''" by simp
  have c: "\<not> xlsx_available ?e" by simp
  have d: "db_fault ?e = None \<and> mkdir_fault ?e = None" by (simp add: env_ok_def)
  from xlsx_without_library_fails [OF a b c] a b c d show ?thesis by blast
qed

subsection \<open>C8: what a completed export holds\<close>

text \<open>
  C8. For every job that ends \<^verbatim>\<open>completed\<close> with format \<^verbatim>\<open>csv\<close> or \<^verbatim>\<open>json\<close>, the file at
  its path holds the identifiers of the rows of the query, in the order of the query,
  so the same set; \<^verbatim>\<open>total_records\<close> of the job is the number of these rows, and so is
  \<^verbatim>\<open>total_records\<close> inside the JSON document.
\<close>

theorem completed_export_round_trip:
  assumes "export_jobs w jid = Some j"
    and "process_export e jid rq w = Inr w'"
    and "export_jobs w' jid = Some j'"
    and "status j' = ''completed''"
    and "format rq = ''csv'' \<or> format rq = ''json''"
  shows "\<exists>c.
     files w' (file_name jid (format rq)) = Some c
     \<and> file_ids c = map (\<lambda>r. Some (r_id r)) (query_rows (env_db e) rq)
     \<and> set (file_ids c) = (\<lambda>r. Some (r_id r)) ` set (query_rows (env_db e) rq)
     \<and> total_records j' = int (length (query_rows (env_db e) rq))
     \<and> (format rq = ''json'' \<longrightarrow>
          file_total_records c = Some (int (length (query_rows (env_db e) rq))))"
proof -
  from process_export_Some [OF assms(1), of e rq] assms(2)
  have jobs: "export_jobs w' = (export_jobs w)(jid \<mapsto> final_job e jid j (snd (run_export e jid rq w)))"
    and fs: "files w' = files (fst (run_export e jid rq w))"
    by auto
  from jobs assms(3) have j': "j' = final_job e jid j (snd (run_export e jid rq w))"
    by simp
  with assms(4) obtain rows where r: "snd (run_export e jid rq w) = Inr rows"
    by (cases "snd (run_export e jid rq w)") (simp_all add: final_job_def)
  have rows: "rows = query_rows (env_db e) rq"
    using r by (rule run_export_rows)
  have tot: "total_records j' = int (length rows)"
    using j' r by (simp add: final_job_def)
  from assms(5) show ?thesis
  proof
    assume f: "format rq = ''csv''"
    let ?c = "CsvFile (map PStr (csv_headers (include_metadata rq))
                # map (csv_data (include_metadata rq)) rows)"
    have "files w' (file_name jid (format rq)) = Some ?c"
      using run_export_csv_file [OF r f] fs f by simp
    moreover have "file_ids ?c = map (\<lambda>r. Some (r_id r)) rows"
      by (simp add: cell_id_csv_data)
    moreover have "set (file_ids ?c) = (\<lambda>r. Some (r_id r)) ` set rows"
      by (simp add: cell_id_csv_data)
    ultimately show ?thesis using tot rows f by auto
  next
    assume f: "format rq = ''json''"
    let ?c = "JsonFile (t_export e) (int (length rows)) (map (json_doc (include_metadata rq)) rows)"
    have "files w' (file_name jid (format rq)) = Some ?c"
      using run_export_json_file [OF r f] fs f by simp
    moreover have "file_ids ?c = map (\<lambda>r. Some (r_id r)) rows"
      by (simp add: doc_id_json_doc)
    moreover have "set (file_ids ?c) = (\<lambda>r. Some (r_id r)) ` set rows"
      by (simp add: doc_id_json_doc)
    moreover have "file_total_records ?c = Some (int (length rows))"
      by simp
    ultimately show ?thesis using tot rows by auto
  qed
qed

text \<open>C8 on the example: the JSON export of the three documents.\<close>

theorem completed_export_round_trip_witness:
  "export_jobs (w_pending ''json'') jid1 = Some (job1 ''json'')
   \<and> format (rq_all\<lparr>format := ''json''\<rparr>) = ''json''
   \<and> (\<exists>w' j' c.
        process_export env_ok jid1 (rq_all\<lparr>format := ''json''\<rparr>) (w_pending ''json'') = Inr w'
        \<and> export_jobs w' jid1 = Some j'
        \<and> status j' = ''completed''
        \<and> files w' (file_name jid1 ''json'') = Some c
        \<and> file_ids c = [Some 5, Some 8, Some 3]
        \<and> total_records j' = 3
        \<and> file_total_records c = Some 3)"
proof -
  let ?rq = "rq_all\<lparr>format := ''json''\<rparr>"
  have a: "export_jobs (w_pending ''json'') jid1 = Some (job1 ''json'')"
    by (simp add: w_pending_def)
  have f: "format ?rq = ''json''" by simp
  from process_export_Some [OF a, of env_ok ?rq]
  obtain w' where pe: "process_export env_ok jid1 ?rq (w_pending ''json'') = Inr w'"
    and jobs: "export_jobs w' jid1 \<noteq> None"
    by auto
  then obtain j' where j': "export_jobs w' jid1 = Some j'" by blast
  have ev: "map_option status
      (job_of (process_export env_ok jid1 ?rq (w_pending ''json'')) jid1) = Some ''completed''"
    by (simp add: run_defs world_defs ex_defs)
  from ev pe j' have st: "status j' = ''completed''" by (simp add: job_of_def)
  have q: "map (\<lambda>r. Some (r_id r)) (query_rows (env_db env_ok) ?rq) = [Some 5, Some 8, Some 3]"
    by (simp add: ex_defs env_ok_def query_rows_def fetchall_def build_query_def join_case_def)
  have n: "length (query_rows (env_db env_ok) ?rq) = 3"
    using arg_cong [OF q, of length] by simp
  from completed_export_round_trip [OF a pe j' st]
  obtain c where c1: "files w' (file_name jid1 (format ?rq)) = Some c"
    and c2: "file_ids c = map (\<lambda>r. Some (r_id r)) (query_rows (env_db env_ok) ?rq)"
    and c3: "total_records j' = int (length (query_rows (env_db env_ok) ?rq))"
    and c4: "format ?rq = ''json'' \<longrightarrow>
          file_total_records c = Some (int (length (query_rows (env_db env_ok) ?rq)))"
    using f by blast
  from c1 have d1: "files w' (file_name jid1 ''json'') = Some c" by simp
  from c2 q have d2: "file_ids c = [Some 5, Some 8, Some 3]" by simp
  from c3 n have d3: "total_records j' = 3" by simp
  from c4 n have d4: "file_total_records c = Some 3" by simp
  from a f pe j' st d1 d2 d3 d4 show ?thesis by blast
qed

subsection \<open>C9: the fields of a job follow its status\<close>

text \<open>
  Against C9. After two submissions in one clock reading the two tasks run on the one
  record. The first completes it; in the second, which fails, the record is
  \<^verbatim>\<open>processing\<close> and then \<^verbatim>\<open>failed\<close> with the download URL still set and
  \<^verbatim>\<open>total_records\<close> still 3.
\<close>

theorem reused_job_id_fields_counterexample:
  "map (inv_at jid1)
     (run_events [Submit stamp1 1000 rq_all, Submit stamp1 1000 rq_all,
                  Task env_ok jid1 rq_all,
                  Task (env_ok\<lparr>db_fault := Some ''connection refused''\<rparr>) jid1 rq_all] w_empty) =
   [True, True, True, True, False, False]
   \<and> map (\<lambda>w. map_option status (export_jobs w jid1))
     (run_events [Submit stamp1 1000 rq_all, Submit stamp1 1000 rq_all,
                  Task env_ok jid1 rq_all,
                  Task (env_ok\<lparr>db_fault := Some ''connection refused''\<rparr>) jid1 rq_all] w_empty) =
   [Some ''pending'', Some ''pending'', Some ''processing'', Some ''completed'',
    Some ''processing'', Some ''failed'']
   \<and> map (\<lambda>w. map_option total_records (export_jobs w jid1))
     (run_events [Submit stamp1 1000 rq_all, Submit stamp1 1000 rq_all,
                  Task env_ok jid1 rq_all,
                  Task (env_ok\<lparr>db_fault := Some ''connection refused''\<rparr>) jid1 rq_all] w_empty) =
   [Some 0, Some 0, Some 0, Some 3, Some 3, Some 3]"
  by (simp add: run_defs world_defs ex_defs event_defs inv_at_def job_inv_def)

text \<open>
  C9, amended. For every submitted job whose id is given to no other submission, while
  its one task runs once: in every state from its submission on (as submitted, after
  line 91, after the task has ended, and whatever else happens in between and
  afterwards) the download URL is set exactly when the status is \<^verbatim>\<open>completed\<close>, the
  error message is set exactly when the status is \<^verbatim>\<open>failed\<close>, and \<^verbatim>\<open>total_records\<close> is
  0 unless the status is \<^verbatim>\<open>completed\<close>.
\<close>

theorem job_fields_follow_status_without_reuse:
  assumes "jid = ''export_'' @ stamp"
    and "\<not> list_ex (touches jid) mid"
    and "\<not> list_ex (touches jid) post"
  shows "list_all (inv_at jid)
       (run_events (Submit stamp now rq # mid @ Task e jid rq # post) w)"
proof -
  define job where "job = \<lparr> job_id = jid, status = ''pending'', job_format = format rq,
        created_at = now, completed_at = None, download_url = None, total_records = 0,
        error_message = None \<rparr>"
  define chk where "chk = (\<lambda>x. case x of None \<Rightarrow> False | Some j \<Rightarrow> job_inv j)"
  from job_lifecycle_states [OF assms job_def, of e w]
  obtain n m r where sq: "map (\<lambda>w'. export_jobs w' jid)
       (run_events (Submit stamp now rq # mid @ Task e jid rq # post) w) =
     Some job # replicate n (Some job)
       @ [Some (job\<lparr>status := ''processing''\<rparr>), Some (final_job e jid job r)]
       @ replicate m (Some (final_job e jid job r))"
    by (elim exE)
  have i0: "job_inv job" by (simp add: job_def job_inv_def)
  have i1: "job_inv (job\<lparr>status := ''processing''\<rparr>)" by (simp add: job_def job_inv_def)
  have i2: "job_inv (final_job e jid job r)"
    by (cases r) (simp_all add: job_def job_inv_def final_job_def)
  have "list_all chk (map (\<lambda>w'. export_jobs w' jid)
       (run_events (Submit stamp now rq # mid @ Task e jid rq # post) w))"
    unfolding sq using i0 i1 i2 by (auto simp: chk_def list_all_iff)
  then have "list_all (chk \<circ> (\<lambda>w'. export_jobs w' jid))
       (run_events (Submit stamp now rq # mid @ Task e jid rq # post) w)"
    by (simp only: list.pred_map)
  moreover have "inv_at jid = chk \<circ> (\<lambda>w'. export_jobs w' jid)"
    by (simp add: fun_eq_iff inv_at_def chk_def)
  ultimately show ?thesis by simp
qed

text \<open>The amended C9 on the example, with a task that fails.\<close>

theorem job_fields_follow_status_without_reuse_witness:
  "jid1 = ''export_'' @ stamp1
   \<and> \<not> list_ex (touches jid1) [Submit stamp2 1001 (rq_all\<lparr>format := ''json''\<rparr>), GetJob jid1]
   \<and> \<not> list_ex (touches jid1)
         [Task env_ok jid2 (rq_all\<lparr>format := ''json''\<rparr>), Download ''20240102'' jid1]
   \<and> list_all (inv_at jid1)
        (run_events
           (Submit stamp1 1000 rq_all
            # [Submit stamp2 1001 (rq_all\<lparr>format := ''json''\<rparr>), GetJob jid1]
            @ Task (env_ok\<lparr>db_fault := Some ''connection refused''\<rparr>) jid1 rq_all
            # [Task env_ok jid2 (rq_all\<lparr>format := ''json''\<rparr>), Download ''20240102'' jid1])
           w_empty)"
proof -
  let ?mid = "[Submit stamp2 1001 (rq_all\<lparr>format := ''json''\<rparr>), GetJob jid1]"
  let ?post = "[Task env_ok jid2 (rq_all\<lparr>format := ''json''\<rparr>), Download ''20240102'' jid1]"
  have a: "jid1 = ''export_'' @ stamp1" by (simp add: jid1_def stamp1_def)
  have b: "\<not> list_ex (touches jid1) ?mid" by (simp add: jid1_def stamp2_def)
  have c: "\<not> list_ex (touches jid1) ?post" by (simp add: jid1_def jid2_def)
  from job_fields_follow_status_without_reuse [OF a b c] a b c
  show ?thesis by blast
qed

subsection \<open>C10: criteria that Python takes for false\<close>

text \<open>
  C10. The case id 0 adds no condition on the case, and the empty list of document ids
  adds no condition on the id: the query built, and so the rows exported, are those of
  the request without that criterion.
\<close>

theorem falsy_criteria_skipped:
  "build_query (rq\<lparr>case_id := Some 0\<rparr>) = build_query (rq\<lparr>case_id := None\<rparr>)
   \<and> build_query (rq\<lparr>document_ids := Some []\<rparr>) = build_query (rq\<lparr>document_ids := None\<rparr>)
   \<and> query_rows db0 (rq\<lparr>case_id := Some 0\<rparr>) = query_rows db0 (rq\<lparr>case_id := None\<rparr>)
   \<and> query_rows db0 (rq\<lparr>document_ids := Some []\<rparr>) = query_rows db0 (rq\<lparr>document_ids := None\<rparr>)"
  by (simp add: query_rows_def build_query_def)

text \<open>
  C10 on the example: with the empty id list the two documents of case 7 are exported,
  and with case id 0 all three.
\<close>

theorem falsy_criteria_skipped_witness:
  "map r_id (query_rows db1 (rq_all\<lparr>case_id := Some 7, document_ids := Some []\<rparr>)) = [5, 3]
   \<and> map r_id (query_rows db1 (rq_all\<lparr>case_id := Some 0\<rparr>)) = [5, 8, 3]"
  using falsy_criteria_skipped [of "rq_all\<lparr>case_id := Some 7\<rparr>" db1]
    falsy_criteria_skipped [of rq_all db1]
  by (simp add: ex_defs query_rows_def fetchall_def build_query_def join_case_def)

end
